theory Spec2Isabelle
  imports Main
begin

section \<open>PostgreSQL helper operations of m2ee (\<open>m2ee/pgutil.py\<close>)\<close>

text \<open>
  The module shells out to \<open>pg_dump\<close>, \<open>pg_restore\<close> and \<open>psql\<close> and, for
  \<open>emptydb\<close>, drives a psycopg2 connection. Everything outside the module (the
  configuration object, the process environment, the file system, the child processes,
  the database server) is an explicit argument of the model; every \<open>raise\<close> of the
  source and every exception that escapes from a built-in is a value \<open>Inl e\<close>. Calls
  to \<open>logger\<close> have no effect on any result and are left out.
\<close>

subsection \<open>Python values\<close>

text \<open>
  \<open>bytes\<close> objects are lists of 8-bit characters. A \<open>str\<close> built by the module
  (messages, command lines, paths) is a \<open>string\<close> as well; the keys produced by
  \<open>bytes.decode()\<close> are lists of code points, since a decoded character need not
  fit in eight bits.
\<close>

type_synonym bytes = string
type_synonym unicode = "nat list"
type_synonym environ = "string \<rightharpoonup> string"

datatype type_error = NotAllArgumentsConverted | NotEnoughArguments

datatype value_error =
    InvalidLiteralForInt bytes
  | NotEnoughValuesToUnpack nat
  | TooManyValuesToUnpack

text \<open>
  Modelled from the spec: the class \<open>M2EEException\<close> of \<open>m2ee.exceptions\<close> is not
  among the sources. The specification has it carry the message and the underlying
  cause: \<open>M2EEException message cause\<close>, where the cause is the exception handed over
  as second argument of the constructor or chained with \<open>from\<close>, when there is one.
  The other constructors are the exceptions of Python, of \<open>subprocess\<close> and of
  psycopg2 that can leave the module.
\<close>

datatype error =
    M2EEException string "error option"
  | OSError string
  | Psycopg2Error string
  | TypeError type_error
  | ValueError value_error
  | KeyError string
  | UnicodeDecodeError
  | CalledProcessError int "string list" bytes


subsection \<open>Built-ins used by the module\<close>

definition is_space :: "char \<Rightarrow> bool" where
  "is_space c = (let n = (of_char c :: nat) in n = 32 \<or> (9 \<le> n \<and> n \<le> 13))"

definition is_digit :: "char \<Rightarrow> bool" where
  "is_digit c = (let n = (of_char c :: nat) in 48 \<le> n \<and> n \<le> 57)"

definition digit_val :: "char \<Rightarrow> int" where
  "digit_val c = int (of_char c) - 48"

text \<open>\<open>bytes.strip()\<close> without argument removes ASCII whitespace at both ends.\<close>

definition strip :: "bytes \<Rightarrow> bytes" where
  "strip s = rev (dropWhile is_space (rev (dropWhile is_space s)))"

text \<open>\<open>bytes.split(sep)\<close> for a one-byte separator: one more field than separators.\<close>

fun split :: "char \<Rightarrow> bytes \<Rightarrow> bytes list" where
  "split sep [] = [[]]"
| "split sep (c # cs) =
     (if c = sep then [] # split sep cs
      else (case split sep cs of
              [] \<Rightarrow> [[c]]
            | f # fs \<Rightarrow> (c # f) # fs))"

text \<open>
  \<open>bytes.splitlines()\<close>: lines end at \<open>\n\<close>, \<open>\r\<close> or \<open>\r\n\<close>; the terminators
  are dropped and no empty line follows a final terminator.
\<close>

fun splitlines_from :: "bytes \<Rightarrow> bytes \<Rightarrow> bytes list" where
  "splitlines_from cur [] = (if cur = [] then [] else [cur])"
| "splitlines_from cur [c] =
     (if c = CHR 0x0A \<or> c = CHR 0x0D then [cur] else [cur @ [c]])"
| "splitlines_from cur (c # d # rest) =
     (if c = CHR 0x0D \<and> d = CHR 0x0A then cur # splitlines_from [] rest
      else if c = CHR 0x0A \<or> c = CHR 0x0D then cur # splitlines_from [] (d # rest)
      else splitlines_from (cur @ [c]) (d # rest))"

definition splitlines :: "bytes \<Rightarrow> bytes list" where
  "splitlines s = splitlines_from [] s"

text \<open>
  \<open>int(b)\<close> for a \<open>bytes\<close> argument, base 10: optional whitespace, an optional sign,
  decimal digits in which single underscores may stand between two digits, optional
  whitespace. Anything else is a \<open>ValueError\<close>. (The limit that newer interpreters
  put on the number of digits of one literal is a setting of the interpreter and not
  part of this model.)
\<close>

fun digits_ok :: "bytes \<Rightarrow> bool" where
  "digits_ok [] = False"
| "digits_ok [c] = is_digit c"
| "digits_ok (c # d # cs) =
     (is_digit c \<and> (if d = CHR ''_'' then digits_ok cs else digits_ok (d # cs)))"

definition digits_value :: "bytes \<Rightarrow> int" where
  "digits_value ds = foldl (\<lambda>acc c. if c = CHR ''_'' then acc else 10 * acc + digit_val c) 0 ds"

definition py_int :: "bytes \<Rightarrow> error + int" where
  "py_int b =
     (let s = dropWhile is_space b;
          (neg, t) = (case s of
                        c # cs \<Rightarrow> if c = CHR ''-'' then (True, cs)
                                  else if c = CHR ''+'' then (False, cs)
                                  else (False, s)
                      | [] \<Rightarrow> (False, s));
          body = takeWhile (\<lambda>c. is_digit c \<or> c = CHR ''_'') t;
          rest = dropWhile (\<lambda>c. is_digit c \<or> c = CHR ''_'') t
      in if digits_ok body \<and> dropWhile is_space rest = []
         then Inr (if neg then - digits_value body else digits_value body)
         else Inl (ValueError (InvalidLiteralForInt b)))"

text \<open>The list comprehension \<open>[int(x) for x in fields]\<close>: the first failure escapes.\<close>

fun ints_of :: "bytes list \<Rightarrow> error + int list" where
  "ints_of [] = Inr []"
| "ints_of (x # xs) =
     (case py_int x of
        Inl e \<Rightarrow> Inl e
      | Inr n \<Rightarrow> (case ints_of xs of Inl e \<Rightarrow> Inl e | Inr ns \<Rightarrow> Inr (n # ns)))"

text \<open>
  \<open>str(b)\<close> of a \<open>bytes\<close> object, which is what \<open>"%s" % b\<close> inserts: the literal
  form \<open>b'...'\<close> with escapes.
\<close>

definition hex_digit :: "nat \<Rightarrow> char" where
  "hex_digit n = (if n < 10 then char_of (48 + n) else char_of (87 + n))"

definition bytes_repr :: "bytes \<Rightarrow> string" where
  "bytes_repr b =
     (let quote = (if CHR 0x27 \<in> set b \<and> CHR 0x22 \<notin> set b then CHR 0x22 else CHR 0x27);
          esc = (\<lambda>c. let n = (of_char c :: nat) in
                   if c = quote \<or> c = CHR 0x5C then [CHR 0x5C, c]
                   else if c = CHR 0x09 then [CHR 0x5C, CHR ''t'']
                   else if c = CHR 0x0A then [CHR 0x5C, CHR ''n'']
                   else if c = CHR 0x0D then [CHR 0x5C, CHR ''r'']
                   else if n < 32 \<or> 127 \<le> n
                     then [CHR 0x5C, CHR ''x'', hex_digit (n div 16), hex_digit (n mod 16)]
                   else [c])
      in [CHR ''b'', quote] @ concat (map esc b) @ [quote])"

text \<open>
  The \<open>%\<close> operator on a format string. The right operand is given as the list of the
  \<open>str\<close> forms of its items: the items of a tuple, or the one object that is not a
  tuple. The formats of this module hold no conversion but \<open>%s\<close>.
\<close>

fun percent :: "string \<Rightarrow> string list \<Rightarrow> error + string" where
  "percent [] args =
     (if args = [] then Inr [] else Inl (TypeError NotAllArgumentsConverted))"
| "percent [c] args =
     (if args = [] then Inr [c] else Inl (TypeError NotAllArgumentsConverted))"
| "percent (c # d # rest) args =
     (if c = CHR ''%'' \<and> d = CHR ''s'' then
        (case args of
           [] \<Rightarrow> Inl (TypeError NotEnoughArguments)
         | a # as \<Rightarrow> (case percent rest as of Inl e \<Rightarrow> Inl e | Inr r \<Rightarrow> Inr (a @ r)))
      else (case percent (d # rest) args of Inl e \<Rightarrow> Inl e | Inr r \<Rightarrow> Inr (c # r)))"

text \<open>
  \<open>bytes.decode()\<close>: strict UTF-8. Overlong forms, surrogates, code points above
  \<open>0x10FFFF\<close>, stray continuation bytes and truncated sequences are rejected.
\<close>

definition is_cont :: "char \<Rightarrow> bool" where
  "is_cont c = (let n = (of_char c :: nat) in 128 \<le> n \<and> n < 192)"

definition cont_bits :: "char \<Rightarrow> nat" where
  "cont_bits c = of_char c - 128"

definition push_cp :: "nat \<Rightarrow> error + unicode \<Rightarrow> error + unicode" where
  "push_cp n r = (case r of Inl e \<Rightarrow> Inl e | Inr cps \<Rightarrow> Inr (n # cps))"

fun decode :: "bytes \<Rightarrow> error + unicode" where
  "decode [] = Inr []"
| "decode (c # cs) =
     (let n = (of_char c :: nat) in
      if n < 128 then push_cp n (decode cs)
      else if 194 \<le> n \<and> n < 224 then
        (case cs of
           c1 # r \<Rightarrow>
             if is_cont c1 then push_cp ((n - 192) * 64 + cont_bits c1) (decode r)
             else Inl UnicodeDecodeError
         | _ \<Rightarrow> Inl UnicodeDecodeError)
      else if 224 \<le> n \<and> n < 240 then
        (case cs of
           c1 # c2 # r \<Rightarrow>
             if is_cont c1 \<and> is_cont c2
                \<and> (if n = 224 then 32 \<le> cont_bits c1 else True)
                \<and> (if n = 237 then cont_bits c1 < 32 else True)
             then push_cp ((n - 224) * 4096 + cont_bits c1 * 64 + cont_bits c2) (decode r)
             else Inl UnicodeDecodeError
         | _ \<Rightarrow> Inl UnicodeDecodeError)
      else if 240 \<le> n \<and> n < 245 then
        (case cs of
           c1 # c2 # c3 # r \<Rightarrow>
             if is_cont c1 \<and> is_cont c2 \<and> is_cont c3
                \<and> (if n = 240 then 16 \<le> cont_bits c1 else True)
                \<and> (if n = 244 then cont_bits c1 < 16 else True)
             then push_cp ((n - 240) * 262144 + cont_bits c1 * 4096
                           + cont_bits c2 * 64 + cont_bits c3) (decode r)
             else Inl UnicodeDecodeError
         | _ \<Rightarrow> Inl UnicodeDecodeError)
      else Inl UnicodeDecodeError)"

text \<open>\<open>os.path.join(a, b)\<close> on POSIX: an absolute second component replaces the first.\<close>

definition os_path_join :: "string \<Rightarrow> string \<Rightarrow> string" where
  "os_path_join a b =
     (if b \<noteq> [] \<and> hd b = CHR ''/'' then b
      else if a = [] \<or> last a = CHR ''/'' then a @ b
      else a @ ''/'' @ b)"

text \<open>
  \<open>time.strftime(format)\<close> formats the local time. The directives of the module's
  format: \<open>%Y\<close> is the year in decimal, \<open>%m\<close>, \<open>%d\<close>, \<open>%H\<close>, \<open>%M\<close> and
  \<open>%S\<close> are two digits each.
\<close>

record struct_time =
  tm_year :: nat
  tm_mon :: nat
  tm_mday :: nat
  tm_hour :: nat
  tm_min :: nat
  tm_sec :: nat

fun decimal :: "nat \<Rightarrow> string" where
  "decimal n = (if n < 10 then [char_of (48 + n)]
                else decimal (n div 10) @ [char_of (48 + n mod 10)])"

definition two_digits :: "nat \<Rightarrow> string" where
  "two_digits n = [char_of (48 + n div 10 mod 10), char_of (48 + n mod 10)]"

definition directive :: "char \<Rightarrow> struct_time \<Rightarrow> string" where
  "directive d t =
     (if d = CHR ''Y'' then decimal (tm_year t)
      else if d = CHR ''m'' then two_digits (tm_mon t)
      else if d = CHR ''d'' then two_digits (tm_mday t)
      else if d = CHR ''H'' then two_digits (tm_hour t)
      else if d = CHR ''M'' then two_digits (tm_min t)
      else if d = CHR ''S'' then two_digits (tm_sec t)
      else [CHR ''%'', d])"

fun strftime :: "string \<Rightarrow> struct_time \<Rightarrow> string" where
  "strftime [] t = []"
| "strftime [c] t = [c]"
| "strftime (c # d # rest) t =
     (if c = CHR ''%'' then directive d t @ strftime rest t
      else c # strftime (d # rest) t)"

subsection \<open>The surroundings of a call\<close>

text \<open>
  Modelled from the spec: the configuration class is not among the sources. The
  specification has it provide the connection variables (database name, user,
  password), the paths of the three binaries and the directory of the dump files; the
  record holds what the five getters called by the module return. A child process
  either cannot be started (\<open>OSError\<close>) or exits with a status after writing to its
  two streams.
  The world holds what the operating system contributes: the environment of the
  caller, the local time, the files, the paths that cannot be opened for writing
  (with the text of the \<open>OSError\<close>), and what running a command with an environment
  does.
\<close>

record config =
  get_pg_environment :: environ
  get_database_dump_path :: string
  get_pg_dump_binary :: string
  get_pg_restore_binary :: string
  get_psql_binary :: string

datatype outcome = LaunchFailed string | Exited int bytes bytes

record world =
  os_environ :: environ
  localtime :: struct_time
  files :: "string \<rightharpoonup> bytes"
  open_fails :: "string \<rightharpoonup> string"
  run :: "string list \<Rightarrow> environ \<Rightarrow> outcome"

text \<open>\<open>env = os.environ.copy(); env.update(config.get_pg_environment())\<close>\<close>

definition make_env :: "config \<Rightarrow> world \<Rightarrow> environ" where
  "make_env config w = os_environ w ++ get_pg_environment config"

definition getitem :: "environ \<Rightarrow> string \<Rightarrow> error + string" where
  "getitem env k = (case env k of None \<Rightarrow> Inl (KeyError k) | Some v \<Rightarrow> Inr v)"

text \<open>\<open>open(path, 'w+')\<close> creates the file or truncates it.\<close>

definition open_w :: "world \<Rightarrow> string \<Rightarrow> error + world" where
  "open_w w path =
     (case open_fails w path of
        Some msg \<Rightarrow> Inl (OSError msg)
      | None \<Rightarrow> Inr (w\<lparr>files := (files w)(path \<mapsto> [])\<rparr>))"

text \<open>
  \<open>raise M2EEException(fmt % args, cause)\<close>: the message is formatted first, and a
  failure of the formatting is the exception that escapes.
\<close>

definition raise_M2EEException :: "string \<Rightarrow> string list \<Rightarrow> error option \<Rightarrow> error" where
  "raise_M2EEException fmt args cause =
     (case percent fmt args of Inl e \<Rightarrow> e | Inr msg \<Rightarrow> M2EEException msg cause)"

subsection \<open>\<open>dumpdb\<close>\<close>

text \<open>
  The name of the dump file (lines 49 to 54): the given name, or the database name, the
  local time and the suffix \<open>.backup\<close>, joined to the configured directory.
\<close>

definition db_dump_file_name :: "config \<Rightarrow> string option \<Rightarrow> world \<Rightarrow> error + string" where
  "db_dump_file_name config name w =
     (case (case name of
              None \<Rightarrow>
                (case getitem (make_env config w) ''PGDATABASE'' of
                   Inl e \<Rightarrow> Inl e
                 | Inr db \<Rightarrow>
                     percent ''%s_%s.backup'' [db, strftime ''%Y%m%d_%H%M%S'' (localtime w)])
            | Some n \<Rightarrow> Inr n) of
        Inl e \<Rightarrow> Inl e
      | Inr n \<Rightarrow> Inr (os_path_join (get_database_dump_path config) n))"

definition pg_dump_cmd :: "config \<Rightarrow> string list" where
  "pg_dump_cmd config = [get_pg_dump_binary config, ''-O'', ''-x'', ''-F'', ''c'']"

text \<open>
  The arguments of \<open>Popen\<close> are evaluated before the call: the file is opened (inside
  the \<open>try\<close>) and only then is the child started, its standard output being the
  file. An \<open>OSError\<close> of either step reaches the handler, whose message is formatted
  from the command tuple.
\<close>

definition dumpdb :: "config \<Rightarrow> string option \<Rightarrow> world \<Rightarrow> world \<times> (error + unit)" where
  "dumpdb config name w =
     (let env = make_env config w in
      case db_dump_file_name config name w of
        Inl e \<Rightarrow> (w, Inl e)
      | Inr path \<Rightarrow>
          (let cmd = pg_dump_cmd config in
           case open_w w path of
             Inl e \<Rightarrow>
               (w, Inl (raise_M2EEException ''Database dump failed, cmd: %s'' cmd (Some e)))
           | Inr w1 \<Rightarrow>
               (case run w cmd env of
                  LaunchFailed msg \<Rightarrow>
                    (w1, Inl (raise_M2EEException ''Database dump failed, cmd: %s'' cmd
                                (Some (OSError msg))))
                | Exited rc out err \<Rightarrow>
                    (let w2 = w1\<lparr>files := (files w1)(path \<mapsto> out)\<rparr> in
                     if length err \<noteq> 0 then
                       (w2, Inl (raise_M2EEException
                                   ''An error occured while creating database dump: %s''
                                   [bytes_repr (strip err)] None))
                     else (w2, Inr ())))))"

subsection \<open>\<open>restoredb\<close>\<close>

definition pg_restore_cmd :: "config \<Rightarrow> world \<Rightarrow> string \<Rightarrow> error + string list" where
  "pg_restore_cmd config w dump_name =
     (let path = os_path_join (get_database_dump_path config) dump_name in
      case getitem (make_env config w) ''PGDATABASE'' of
        Inl e \<Rightarrow> Inl e
      | Inr db \<Rightarrow>
          Inr [get_pg_restore_binary config, ''-d'', db, ''-O'', ''-n'', ''public'', ''-x'', path])"

definition restoredb :: "config \<Rightarrow> string \<Rightarrow> world \<Rightarrow> error + unit" where
  "restoredb config dump_name w =
     (let env = make_env config w in
      case pg_restore_cmd config w dump_name of
        Inl e \<Rightarrow> Inl e
      | Inr cmd \<Rightarrow>
          (case run w cmd env of
             LaunchFailed msg \<Rightarrow>
               Inl (raise_M2EEException ''Database restore failed, cmd: %s'' cmd
                      (Some (OSError msg)))
           | Exited rc out err \<Rightarrow>
               if length err \<noteq> 0 then
                 Inl (raise_M2EEException
                        ''An error occured while doing database restore: %s ''
                        [bytes_repr (strip err)] None)
               else Inr ()))"

subsection \<open>\<open>psql\<close>\<close>

text \<open>
  \<open>subprocess.call\<close> returns the exit status of the child, which the function drops.
  The command is a tuple of one item, so the message of the handler can be formatted.
\<close>

definition psql_cmd :: "config \<Rightarrow> string list" where
  "psql_cmd config = [get_psql_binary config]"

definition psql :: "config \<Rightarrow> world \<Rightarrow> error + unit" where
  "psql config w =
     (let env = make_env config w;
          cmd = psql_cmd config
      in case run w cmd env of
           LaunchFailed msg \<Rightarrow>
             Inl (raise_M2EEException ''An error occured while calling psql, cmd: %s'' cmd
                    (Some (OSError msg)))
         | Exited rc out err \<Rightarrow> Inr ())"

subsection \<open>\<open>pg_stat_database\<close>\<close>

definition pg_stat_database_cmd :: "config \<Rightarrow> world \<Rightarrow> error + string list" where
  "pg_stat_database_cmd config w =
     (case getitem (make_env config w) ''PGDATABASE'' of
        Inl e \<Rightarrow> Inl e
      | Inr datname \<Rightarrow>
          (case percent
                  (''SELECT xact_commit, xact_rollback, tup_inserted, tup_updated, tup_deleted ''
                   @ ''FROM pg_stat_database where datname = '' @ [CHR 0x27] @ ''%s'' @ [CHR 0x27])
                  [datname] of
             Inl e \<Rightarrow> Inl e
           | Inr query \<Rightarrow> Inr [get_psql_binary config, ''-At'', ''-c'', query]))"

definition pg_stat_database :: "config \<Rightarrow> world \<Rightarrow> error + int list" where
  "pg_stat_database config w =
     (let env = make_env config w in
      case pg_stat_database_cmd config w of
        Inl e \<Rightarrow> Inl e
      | Inr cmd \<Rightarrow>
          (case run w cmd env of
             LaunchFailed msg \<Rightarrow>
               Inl (raise_M2EEException ''Retrieving pg_stat_database info failed, cmd: %s'' cmd
                      (Some (OSError msg)))
           | Exited rc out err \<Rightarrow>
               if length err \<noteq> 0 then
                 Inl (raise_M2EEException ''Retrieving pg_stat_database info failed: %s''
                        [bytes_repr (strip err)] None)
               else ints_of (split (CHR ''|'') out)))"

subsection \<open>\<open>pg_stat_activity\<close>\<close>

definition pg_stat_activity_cmd :: "config \<Rightarrow> world \<Rightarrow> error + string list" where
  "pg_stat_activity_cmd config w =
     (case getitem (make_env config w) ''PGDATABASE'' of
        Inl e \<Rightarrow> Inl e
      | Inr datname \<Rightarrow>
          (case getitem (make_env config w) ''PGUSER'' of
             Inl e \<Rightarrow> Inl e
           | Inr usename \<Rightarrow>
               (case percent
                       (''SELECT count(*), state FROM pg_stat_activity ''
                        @ ''WHERE datname = '' @ [CHR 0x27] @ ''%s'' @ [CHR 0x27]
                        @ '' AND usename = '' @ [CHR 0x27] @ ''%s'' @ [CHR 0x27] @ '' GROUP BY 2'')
                       [datname, usename] of
                  Inl e \<Rightarrow> Inl e
                | Inr query \<Rightarrow> Inr [get_psql_binary config, ''-At'', ''-c'', query])))"

text \<open>
  The dictionary comprehension: each line is split at \<open>|\<close> and unpacked into exactly
  two fields; the key is evaluated before the value; a key that comes again replaces
  the earlier entry.
\<close>

fun activity_dict :: "bytes list \<Rightarrow> (unicode \<rightharpoonup> int) \<Rightarrow> error + (unicode \<rightharpoonup> int)" where
  "activity_dict [] m = Inr m"
| "activity_dict (line # lines) m =
     (case split (CHR ''|'') line of
        [count, state] \<Rightarrow>
          (case decode state of
             Inl e \<Rightarrow> Inl e
           | Inr key \<Rightarrow>
               (case py_int count of
                  Inl e \<Rightarrow> Inl e
                | Inr v \<Rightarrow> activity_dict lines (m(key \<mapsto> v))))
      | [] \<Rightarrow> Inl (ValueError (NotEnoughValuesToUnpack 0))
      | [x] \<Rightarrow> Inl (ValueError (NotEnoughValuesToUnpack 1))
      | _ \<Rightarrow> Inl (ValueError TooManyValuesToUnpack))"

definition pg_stat_activity :: "config \<Rightarrow> world \<Rightarrow> error + (unicode \<rightharpoonup> int)" where
  "pg_stat_activity config w =
     (let env = make_env config w in
      case pg_stat_activity_cmd config w of
        Inl e \<Rightarrow> Inl e
      | Inr cmd \<Rightarrow>
          (case run w cmd env of
             LaunchFailed msg \<Rightarrow>
               Inl (raise_M2EEException ''Retrieving pg_stat_activity info failed, cmd: %s'' cmd
                      (Some (OSError msg)))
           | Exited rc out err \<Rightarrow>
               if length err \<noteq> 0 then
                 Inl (raise_M2EEException ''Retrieving pg_stat_activity info failed: %s''
                        [bytes_repr (strip err)] None)
               else activity_dict (splitlines out) Map.empty))"

subsection \<open>\<open>pg_table_index_size\<close>\<close>

text \<open>
  \<open>subprocess.check_output\<close> captures the standard output only. It raises
  \<open>CalledProcessError\<close> for an exit status other than zero, and the \<open>OSError\<close> of a
  failed start is not caught by the function.
\<close>

definition pg_table_index_size_cmd :: "config \<Rightarrow> string list" where
  "pg_table_index_size_cmd config =
     [get_psql_binary config, ''-At'', ''-c'',
      ''SELECT sum(pg_table_size(table_name::regclass)), ''
      @ ''sum(pg_indexes_size(table_name::regclass)) ''
      @ ''FROM (SELECT ('' @ [CHR 0x27, CHR 0x22, CHR 0x27] @ '' || table_schema || ''
      @ [CHR 0x27, CHR 0x22, CHR ''.'', CHR 0x22, CHR 0x27] @ '' || table_name || ''
      @ [CHR 0x27, CHR 0x22, CHR 0x27] @ '') ''
      @ ''        AS table_name FROM information_schema.tables) AS foo'']"

definition check_output :: "world \<Rightarrow> string list \<Rightarrow> environ \<Rightarrow> error + bytes" where
  "check_output w cmd env =
     (case run w cmd env of
        LaunchFailed msg \<Rightarrow> Inl (OSError msg)
      | Exited rc out err \<Rightarrow> if rc \<noteq> 0 then Inl (CalledProcessError rc cmd out) else Inr out)"

definition pg_table_index_size :: "config \<Rightarrow> world \<Rightarrow> error + int list" where
  "pg_table_index_size config w =
     (let env = make_env config w;
          cmd = pg_table_index_size_cmd config
      in case check_output w cmd env of
           Inl e \<Rightarrow> Inl e
         | Inr output \<Rightarrow> ints_of (split (CHR ''|'') output))"

subsection \<open>\<open>emptydb\<close>\<close>

text \<open>
  The database is reached through psycopg2. A server state is a value of an arbitrary
  type \<open>'db\<close>; the driver record says whether the module was imported, whether a
  connection is granted, what a statement does to the state seen by the open
  transaction (the new state and the rows fetched, or the exception raised), and
  whether a commit is refused. A connection holds the committed state, the state
  inside its transaction, and whether it has been closed. The connection does not
  commit by itself: \<open>close\<close> discards what was not committed.
\<close>

datatype relkind = Table | Sequence

type_synonym relation = "string \<times> string"

datatype statement = SelectVisible relkind | DropCascade relkind relation

record 'db driver =
  imported :: bool
  refuses :: "string \<Rightarrow> string \<Rightarrow> string \<Rightarrow> error option"
  executes :: "statement \<Rightarrow> 'db \<Rightarrow> error + ('db \<times> relation list)"
  commit_fails :: "'db \<Rightarrow> error option"

record 'db connection =
  committed :: 'db
  pending :: 'db
  closed :: bool

definition connect :: "'db driver \<Rightarrow> string \<Rightarrow> string \<Rightarrow> string \<Rightarrow> 'db \<Rightarrow> error + 'db connection" where
  "connect drv database user password db =
     (case refuses drv database user password of
        Some e \<Rightarrow> Inl e
      | None \<Rightarrow> Inr \<lparr>committed = db, pending = db, closed = False\<rparr>)"

definition execute :: "'db driver \<Rightarrow> statement \<Rightarrow> 'db connection \<Rightarrow> error + ('db connection \<times> relation list)" where
  "execute drv stmt conn =
     (case executes drv stmt (pending conn) of
        Inl e \<Rightarrow> Inl e
      | Inr (db, rows) \<Rightarrow> Inr (conn\<lparr>pending := db\<rparr>, rows))"

definition commit :: "'db driver \<Rightarrow> 'db connection \<Rightarrow> error + 'db connection" where
  "commit drv conn =
     (case commit_fails drv (pending conn) of
        Some e \<Rightarrow> Inl e
      | None \<Rightarrow> Inr (conn\<lparr>committed := pending conn\<rparr>))"

definition close :: "'db connection \<Rightarrow> 'db connection" where
  "close conn = conn\<lparr>pending := committed conn, closed := True\<rparr>"

definition open_pg_connection :: "'db driver \<Rightarrow> config \<Rightarrow> 'db \<Rightarrow> error + 'db connection" where
  "open_pg_connection drv config db =
     (if \<not> imported drv then
        Inl (M2EEException
               (''Failed to import psycopg2. This module is needed by m2ee for ''
                @ ''PostgreSQL related functionality. ''
                @ ''Please provide it on the python library path.'') None)
      else
        (let pg_env = get_pg_environment config in
         case getitem pg_env ''PGDATABASE'' of
           Inl e \<Rightarrow> Inl e
         | Inr database \<Rightarrow>
             (case getitem pg_env ''PGUSER'' of
                Inl e \<Rightarrow> Inl e
              | Inr user \<Rightarrow>
                  (case getitem pg_env ''PGPASSWORD'' of
                     Inl e \<Rightarrow> Inl e
                   | Inr password \<Rightarrow>
                       (case connect drv database user password db of
                          Inl (Psycopg2Error pe) \<Rightarrow>
                            Inl (M2EEException (''Opening database connection failed: '' @ pe)
                                   (Some (Psycopg2Error pe)))
                        | Inl e \<Rightarrow> Inl e
                        | Inr conn \<Rightarrow> Inr conn)))))"

text \<open>The loop over the fetched rows: one \<open>DROP ... CASCADE\<close> for each.\<close>

fun drop_each :: "'db driver \<Rightarrow> relkind \<Rightarrow> relation list \<Rightarrow> 'db connection \<Rightarrow> 'db connection \<times> (error + unit)" where
  "drop_each drv kind [] conn = (conn, Inr ())"
| "drop_each drv kind (nsp_rel_tuple # nsp_rel_tuples) conn =
     (case execute drv (DropCascade kind nsp_rel_tuple) conn of
        Inl e \<Rightarrow> (conn, Inl e)
      | Inr (conn', rows) \<Rightarrow> drop_each drv kind nsp_rel_tuples conn')"

text \<open>The body of the \<open>try\<close>: the tables, then the sequences, then the commit.\<close>

definition emptydb_try :: "'db driver \<Rightarrow> 'db connection \<Rightarrow> 'db connection \<times> (error + unit)" where
  "emptydb_try drv conn =
     (case execute drv (SelectVisible Table) conn of
        Inl e \<Rightarrow> (conn, Inl e)
      | Inr (c1, tables) \<Rightarrow>
          (case drop_each drv Table tables c1 of
             (c2, Inl e) \<Rightarrow> (c2, Inl e)
           | (c2, Inr u) \<Rightarrow>
               (case execute drv (SelectVisible Sequence) c2 of
                  Inl e \<Rightarrow> (c2, Inl e)
                | Inr (c3, sequences) \<Rightarrow>
                    (case drop_each drv Sequence sequences c3 of
                       (c4, Inl e) \<Rightarrow> (c4, Inl e)
                     | (c4, Inr u) \<Rightarrow>
                         (case commit drv c4 of
                            Inl e \<Rightarrow> (c4, Inl e)
                          | Inr c5 \<Rightarrow> (c5, Inr ()))))))"

text \<open>
  \<open>except psycopg2.Error\<close> turns an error of the driver into an \<open>M2EEException\<close>;
  \<open>finally\<close> closes the connection whatever happened. The connection returned is the
  one that was opened, in its last state; there is none when opening failed.
\<close>

definition emptydb :: "'db driver \<Rightarrow> config \<Rightarrow> 'db \<Rightarrow> 'db connection option \<times> (error + unit)" where
  "emptydb drv config db =
     (case open_pg_connection drv config db of
        Inl e \<Rightarrow> (None, Inl e)
      | Inr conn \<Rightarrow>
          (case emptydb_try drv conn of
             (c, Inr u) \<Rightarrow> (Some (close c), Inr ())
           | (c, Inl (Psycopg2Error pe)) \<Rightarrow>
               (Some (close c),
                Inl (M2EEException (''Emptying database failed: '' @ pe)
                       (Some (Psycopg2Error pe))))
           | (c, Inl e) \<Rightarrow> (Some (close c), Inl e)))"

text \<open>
  The two phases as the specification words them, on server states: select the visible
  relations of one kind and drop each of them, stopping at the first error.
\<close>

fun drops :: "'db driver \<Rightarrow> relkind \<Rightarrow> relation list \<Rightarrow> 'db \<Rightarrow> error + 'db" where
  "drops drv kind [] db = Inr db"
| "drops drv kind (r # rs) db =
     (case executes drv (DropCascade kind r) db of
        Inl e \<Rightarrow> Inl e
      | Inr (db', rows) \<Rightarrow> drops drv kind rs db')"

definition phase :: "'db driver \<Rightarrow> relkind \<Rightarrow> 'db \<Rightarrow> error + 'db" where
  "phase drv kind db =
     (case executes drv (SelectVisible kind) db of
        Inl e \<Rightarrow> Inl e
      | Inr (db', rows) \<Rightarrow> drops drv kind rows db')"

definition both_phases :: "'db driver \<Rightarrow> 'db \<Rightarrow> error + 'db" where
  "both_phases drv db =
     (case phase drv Table db of
        Inl e \<Rightarrow> Inl e
      | Inr db1 \<Rightarrow>
          (case phase drv Sequence db1 of
             Inl e \<Rightarrow> Inl e
           | Inr db2 \<Rightarrow>
               (case commit_fails drv db2 of Some e \<Rightarrow> Inl e | None \<Rightarrow> Inr db2)))"

subsection \<open>Predicates of the specification and sample surroundings\<close>



text \<open>
  A line of the form \<open><count>|<state>\<close>: two fields, the first an integer literal, the
  second a state name that can be decoded. The entry it stands for is the state name
  with the count.
\<close>

definition parse_line :: "bytes \<Rightarrow> (unicode \<times> int) option" where
  "parse_line line =
     (case split (CHR ''|'') line of
        [count, state] \<Rightarrow>
          (case (decode state, py_int count) of
             (Inr key, Inr v) \<Rightarrow> Some (key, v)
           | _ \<Rightarrow> None)
      | _ \<Rightarrow> None)"

text \<open>The code points of a text of ASCII characters.\<close>

definition ascii :: "string \<Rightarrow> unicode" where
  "ascii s = map of_char s"

text \<open>A configuration, a local time and a world in which every child behaves as given.\<close>

definition config0 :: config where
  "config0 = \<lparr>get_pg_environment = [''PGDATABASE'' \<mapsto> ''app'', ''PGUSER'' \<mapsto> ''mx'',
                                     ''PGPASSWORD'' \<mapsto> ''secret''],
             get_database_dump_path = ''/srv/dumps'',
             get_pg_dump_binary = ''pg_dump'',
             get_pg_restore_binary = ''pg_restore'',
             get_psql_binary = ''psql''\<rparr>"

definition time0 :: struct_time where
  "time0 = \<lparr>tm_year = 2024, tm_mon = 3, tm_mday = 9, tm_hour = 7, tm_min = 5, tm_sec = 0\<rparr>"

definition world0 :: "outcome \<Rightarrow> world" where
  "world0 r = \<lparr>os_environ = [''HOME'' \<mapsto> ''/root''], localtime = time0,
              files = [''/srv/dumps/old.backup'' \<mapsto> ''previous''],
              open_fails = Map.empty, run = (\<lambda>cmd env. r)\<rparr>"

text \<open>
  A server whose state is its catalog of relations. Selecting lists the relations of a
  kind, dropping removes one, and the relation \<open>public.locked\<close> cannot be dropped.
\<close>

definition driver0 :: "(relkind \<times> relation) list driver" where
  "driver0 =
     \<lparr>imported = True,
      refuses = (\<lambda>database user password. None),
      executes = (\<lambda>stmt db.
        case stmt of
          SelectVisible kind \<Rightarrow> Inr (db, map snd (filter (\<lambda>x. fst x = kind) db))
        | DropCascade kind rel \<Rightarrow>
            if rel = (''public'', ''locked'') then Inl (Psycopg2Error ''relation is locked'')
            else Inr (filter (\<lambda>x. x \<noteq> (kind, rel)) db, [])),
      commit_fails = (\<lambda>db. None)\<rparr>"

definition catalog_ok :: "(relkind \<times> relation) list" where
  "catalog_ok = [(Table, (''public'', ''orders'')), (Sequence, (''public'', ''orders_id_seq''))]"

definition catalog_locked :: "(relkind \<times> relation) list" where
  "catalog_locked = [(Table, (''public'', ''orders'')), (Sequence, (''public'', ''locked''))]"

section \<open>Properties\<close>

subsection \<open>The name of the dump file\<close>

declare decimal.simps [simp del]






declare strftime.simps [simp del]







subsection \<open>The dump file and the child processes\<close>

lemma make_env_files [simp]: "make_env config (w\<lparr>files := fs\<rparr>) = make_env config w"
  by (simp add: make_env_def)

lemma db_dump_file_name_files [simp]:
  "db_dump_file_name config name (w\<lparr>files := fs\<rparr>) = db_dump_file_name config name w"
  by (simp add: db_dump_file_name_def split: option.split sum.split)



text \<open>
  Claim C10. \<open>psql\<close> returns normally for every exit status of the client. It fails
  only when the client could not be started, and then with an \<open>M2EEException\<close> that
  names the binary and carries the \<open>OSError\<close>.
\<close>

theorem psql_exit_status:
  "psql config w =
     (case run w (psql_cmd config) (make_env config w) of
        LaunchFailed msg \<Rightarrow>
          Inl (M2EEException (''An error occured while calling psql, cmd: '' @ get_psql_binary config)
                 (Some (OSError msg)))
      | Exited rc out err \<Rightarrow> Inr ())"
  by (simp add: psql_def psql_cmd_def raise_M2EEException_def split: outcome.split)

theorem psql_exit_status_witness:
  "psql config0 (world0 (Exited 2 [] [])) = Inr ()
   \<and> psql config0 (world0 (LaunchFailed ''No such file or directory'')) =
       Inl (M2EEException ''An error occured while calling psql, cmd: psql''
              (Some (OSError ''No such file or directory'')))"
  using psql_exit_status [of config0 "world0 (Exited 2 [] [])"]
        psql_exit_status [of config0 "world0 (LaunchFailed ''No such file or directory'')"]
  by (simp add: world0_def config0_def)

subsection \<open>The error stream of a child\<close>

lemma percent_dump_stderr:
  "percent ''An error occured while creating database dump: %s'' [x] =
     Inr (''An error occured while creating database dump: '' @ x)"
  by simp

lemma percent_restore_stderr:
  "percent ''An error occured while doing database restore: %s '' [x] =
     Inr (''An error occured while doing database restore: '' @ x @ '' '')"
  by simp

lemma percent_stat_database_stderr:
  "percent ''Retrieving pg_stat_database info failed: %s'' [x] =
     Inr (''Retrieving pg_stat_database info failed: '' @ x)"
  by simp

lemma percent_stat_activity_stderr:
  "percent ''Retrieving pg_stat_activity info failed: %s'' [x] =
     Inr (''Retrieving pg_stat_activity info failed: '' @ x)"
  by simp

lemma pg_table_index_size_exited:
  "run w (pg_table_index_size_cmd config) (make_env config w) = Exited rc out err \<Longrightarrow>
   pg_table_index_size config w =
     (if rc \<noteq> 0 then Inl (CalledProcessError rc (pg_table_index_size_cmd config) out)
      else ints_of (split (CHR ''|'') out))"
  by (simp add: pg_table_index_size_def check_output_def)

text \<open>
  Claim C1, as the code has it. When the child wrote to its error stream, \<open>dumpdb\<close>,
  \<open>restoredb\<close>, \<open>pg_stat_database\<close> and \<open>pg_stat_activity\<close> fail with an
  \<open>M2EEException\<close>, whatever the exit status; the message is the text of the
  operation followed by the error stream without its surrounding whitespace, in the
  form \<open>b'...'\<close>. \<open>pg_table_index_size\<close> does not read the error stream: its result
  depends on the exit status and the standard output alone.
\<close>

theorem nonempty_error_stream:
  assumes "err \<noteq> []"
  shows
    "(db_dump_file_name config name w = Inr path \<and> open_fails w path = None
        \<and> run w (pg_dump_cmd config) (make_env config w) = Exited rc out err \<longrightarrow>
      snd (dumpdb config name w) =
        Inl (M2EEException (''An error occured while creating database dump: ''
                            @ bytes_repr (strip err)) None))
     \<and> (pg_restore_cmd config w dump_name = Inr cmd1
        \<and> run w cmd1 (make_env config w) = Exited rc out err \<longrightarrow>
      restoredb config dump_name w =
        Inl (M2EEException (''An error occured while doing database restore: ''
                            @ bytes_repr (strip err) @ '' '') None))
     \<and> (pg_stat_database_cmd config w = Inr cmd2
        \<and> run w cmd2 (make_env config w) = Exited rc out err \<longrightarrow>
      pg_stat_database config w =
        Inl (M2EEException (''Retrieving pg_stat_database info failed: ''
                            @ bytes_repr (strip err)) None))
     \<and> (pg_stat_activity_cmd config w = Inr cmd3
        \<and> run w cmd3 (make_env config w) = Exited rc out err \<longrightarrow>
      pg_stat_activity config w =
        Inl (M2EEException (''Retrieving pg_stat_activity info failed: ''
                            @ bytes_repr (strip err)) None))
     \<and> (run w (pg_table_index_size_cmd config) (make_env config w) = Exited rc out err \<longrightarrow>
      pg_table_index_size config w =
        (if rc \<noteq> 0 then Inl (CalledProcessError rc (pg_table_index_size_cmd config) out)
         else ints_of (split (CHR ''|'') out)))"
proof (intro conjI impI)
  assume "db_dump_file_name config name w = Inr path \<and> open_fails w path = None
        \<and> run w (pg_dump_cmd config) (make_env config w) = Exited rc out err"
  with assms show "snd (dumpdb config name w) =
        Inl (M2EEException (''An error occured while creating database dump: ''
                            @ bytes_repr (strip err)) None)"
    unfolding dumpdb_def open_w_def raise_M2EEException_def percent_dump_stderr
    by (simp add: Let_def)
next
  assume "pg_restore_cmd config w dump_name = Inr cmd1
        \<and> run w cmd1 (make_env config w) = Exited rc out err"
  with assms show "restoredb config dump_name w =
        Inl (M2EEException (''An error occured while doing database restore: ''
                            @ bytes_repr (strip err) @ '' '') None)"
    unfolding restoredb_def raise_M2EEException_def percent_restore_stderr
    by (simp add: Let_def)
next
  assume "pg_stat_database_cmd config w = Inr cmd2
        \<and> run w cmd2 (make_env config w) = Exited rc out err"
  with assms show "pg_stat_database config w =
        Inl (M2EEException (''Retrieving pg_stat_database info failed: ''
                            @ bytes_repr (strip err)) None)"
    unfolding pg_stat_database_def raise_M2EEException_def percent_stat_database_stderr
    by (simp add: Let_def)
next
  assume "pg_stat_activity_cmd config w = Inr cmd3
        \<and> run w cmd3 (make_env config w) = Exited rc out err"
  with assms show "pg_stat_activity config w =
        Inl (M2EEException (''Retrieving pg_stat_activity info failed: ''
                            @ bytes_repr (strip err)) None)"
    unfolding pg_stat_activity_def raise_M2EEException_def percent_stat_activity_stderr
    by (simp add: Let_def)
next
  assume "run w (pg_table_index_size_cmd config) (make_env config w) = Exited rc out err"
  then show "pg_table_index_size config w =
        (if rc \<noteq> 0 then Inl (CalledProcessError rc (pg_table_index_size_cmd config) out)
         else ints_of (split (CHR ''|'') out))"
    by (rule pg_table_index_size_exited)
qed

text \<open>
  The claim as stated fails: with a warning on the error stream and exit status 0 the
  storage sizes are returned, and the message of a failed dump holds the stripped text
  \<open>b'boom'\<close>, not the text \<open>" boom\n"\<close> that was written.
\<close>

theorem nonempty_error_stream_counterexample:
  "pg_table_index_size config0 (world0 (Exited 0 ''10|20\<newline>'' ''WARNING: collation mismatch'')) =
     Inr [10, 20]
   \<and> snd (dumpdb config0 (Some ''x.backup'') (world0 (Exited 1 [] '' boom\<newline>''))) =
     Inl (M2EEException (''An error occured while creating database dump: b''
                         @ [CHR 0x27] @ ''boom'' @ [CHR 0x27]) None)"
  by code_simp


theorem nonempty_error_stream_witness:
  "snd (dumpdb config0 (Some ''x.backup'') (world0 (Exited 1 [] ''boom''))) =
     Inl (M2EEException (''An error occured while creating database dump: b''
                         @ [CHR 0x27] @ ''boom'' @ [CHR 0x27]) None)
   \<and> restoredb config0 ''x.backup'' (world0 (Exited 1 [] ''boom'')) =
     Inl (M2EEException (''An error occured while doing database restore: b''
                         @ [CHR 0x27] @ ''boom'' @ [CHR 0x27] @ '' '') None)
   \<and> pg_stat_database config0 (world0 (Exited 1 [] ''boom'')) =
     Inl (M2EEException (''Retrieving pg_stat_database info failed: b''
                         @ [CHR 0x27] @ ''boom'' @ [CHR 0x27]) None)
   \<and> pg_stat_activity config0 (world0 (Exited 1 [] ''boom'')) =
     Inl (M2EEException (''Retrieving pg_stat_activity info failed: b''
                         @ [CHR 0x27] @ ''boom'' @ [CHR 0x27]) None)
   \<and> pg_table_index_size config0 (world0 (Exited 1 [] ''boom'')) =
     Inl (CalledProcessError 1 (pg_table_index_size_cmd config0) [])"
proof -
  let ?w = "world0 (Exited 1 [] ''boom'')"
  have e: "''boom'' \<noteq> []" by simp
  have b: "bytes_repr (strip ''boom'') = ''b'' @ [CHR 0x27] @ ''boom'' @ [CHR 0x27]"
    by code_simp
  have r: "run ?w c env = Exited 1 [] ''boom''" for c env
    by (simp add: world0_def)
  have n: "db_dump_file_name config0 (Some ''x.backup'') ?w = Inr ''/srv/dumps/x.backup''"
    by (simp add: db_dump_file_name_def config0_def os_path_join_def)
  have o: "open_fails ?w ''/srv/dumps/x.backup'' = None" by (simp add: world0_def)
  obtain cmd1 where c1: "pg_restore_cmd config0 ?w ''x.backup'' = Inr cmd1"
    by (simp add: pg_restore_cmd_def getitem_def make_env_def config0_def world0_def)
  obtain cmd2 where c2: "pg_stat_database_cmd config0 ?w = Inr cmd2"
    by (simp add: pg_stat_database_cmd_def getitem_def make_env_def config0_def world0_def)
  obtain cmd3 where c3: "pg_stat_activity_cmd config0 ?w = Inr cmd3"
    by (simp add: pg_stat_activity_cmd_def getitem_def make_env_def config0_def world0_def)
  note th = nonempty_error_stream [OF e, where config = config0 and w = ?w and rc = 1
      and out = "[]" and name = "Some ''x.backup''" and path = "''/srv/dumps/x.backup''"
      and dump_name = "''x.backup''" and ?cmd1.0 = cmd1 and ?cmd2.0 = cmd2 and ?cmd3.0 = cmd3]
  from th n o c1 c2 c3 show ?thesis
    by (simp add: r b)
qed

subsection \<open>Parsing the output of \<open>psql\<close>\<close>















text \<open>
  Claim C4, as the code has it. For exit status 0, \<open>pg_table_index_size\<close> returns
  \<open>[0, 0]\<close> when the output is the line \<open>0|0\<close>. When both columns are null, which
  \<open>psql -At\<close> prints as the line \<open>|\<close>, it raises the \<open>ValueError\<close> of \<open>int\<close> on the
  empty field.
\<close>

theorem pg_table_index_size_nulls:
  assumes "run w (pg_table_index_size_cmd config) (make_env config w) = Exited 0 out err"
  shows "(out = ''0|0\<newline>'' \<longrightarrow> pg_table_index_size config w = Inr [0, 0])
         \<and> (out = ''|\<newline>'' \<longrightarrow>
            pg_table_index_size config w = Inl (ValueError (InvalidLiteralForInt [])))"
proof -
  have a: "ints_of (split (CHR ''|'') ''0|0\<newline>'') = Inr [0, 0]" by code_simp
  have b: "ints_of (split (CHR ''|'') ''|\<newline>'') = Inl (ValueError (InvalidLiteralForInt []))"
    by code_simp
  from assms a b show ?thesis
    by (simp add: pg_table_index_size_def check_output_def)
qed

text \<open>
  The claim as stated fails: on the output of two null columns the function raises.
\<close>

theorem pg_table_index_size_nulls_counterexample:
  "pg_table_index_size config0 (world0 (Exited 0 ''|\<newline>'' [])) =
     Inl (ValueError (InvalidLiteralForInt []))"
  by code_simp

theorem pg_table_index_size_nulls_witness:
  "pg_table_index_size config0 (world0 (Exited 0 ''0|0\<newline>'' [])) = Inr [0, 0]
   \<and> pg_table_index_size config0 (world0 (Exited 0 ''|\<newline>'' [])) =
       Inl (ValueError (InvalidLiteralForInt []))"
proof -
  have r: "run (world0 (Exited 0 out [])) c env = Exited 0 out []" for c env out
    by (simp add: world0_def)
  from pg_table_index_size_nulls [OF r, of "''0|0\<newline>''" config0]
       pg_table_index_size_nulls [OF r, of "''|\<newline>''" config0]
  show ?thesis by simp
qed




subsection \<open>Connection states\<close>

lemma parse_line_Some:
  assumes "parse_line line = Some (key, v)"
  shows "\<exists>count state. split (CHR ''|'') line = [count, state]
           \<and> decode state = Inr key \<and> py_int count = Inr v"
  using assms
  by (auto simp: parse_line_def split: list.splits sum.splits)

lemma activity_dict_step:
  assumes "parse_line line = Some (key, v)"
  shows "activity_dict (line # lines) m = activity_dict lines (m(key \<mapsto> v))"
proof -
  from parse_line_Some [OF assms] obtain count state where
    "split (CHR ''|'') line = [count, state]" "decode state = Inr key" "py_int count = Inr v"
    by blast
  then show ?thesis by simp
qed

lemma activity_dict_entries:
  "map parse_line lines = map Some entries \<Longrightarrow>
   activity_dict lines m = Inr (m ++ map_of (rev entries))"
proof (induction lines arbitrary: m entries)
  case Nil
  then show ?case by simp
next
  case (Cons line lines)
  from Cons.prems obtain key v es where
    es: "entries = (key, v) # es" and p: "parse_line line = Some (key, v)"
    and rest: "map parse_line lines = map Some es"
    by (cases entries) auto
  have "activity_dict (line # lines) m = activity_dict lines (m(key \<mapsto> v))"
    by (rule activity_dict_step [OF p])
  also have "\<dots> = Inr (m(key \<mapsto> v) ++ map_of (rev es))"
    by (rule Cons.IH [OF rest])
  also have "m(key \<mapsto> v) ++ map_of (rev es) = m ++ map_of (rev entries)"
    by (simp add: es map_add_upd_left fun_eq_iff map_add_def split: option.split)
  finally show ?case .
qed

text \<open>
  Claim C6. When the error stream is empty and every line of the output has the form
  \<open><count>|<state>\<close>, \<open>pg_stat_activity\<close> returns a mapping whose keys are exactly the
  state names of the lines. A state that is on no line is not a key. Each state is
  mapped to the count of its line; should a state stand on several lines, the last of
  them counts.
\<close>

theorem pg_stat_activity_mapping:
  assumes "pg_stat_activity_cmd config w = Inr cmd"
    and "run w cmd (make_env config w) = Exited rc out []"
    and "map parse_line (splitlines out) = map Some entries"
  shows "\<exists>m. pg_stat_activity config w = Inr m
           \<and> m = map_of (rev entries)
           \<and> dom m = fst ` set entries
           \<and> (\<forall>k. k \<notin> fst ` set entries \<longrightarrow> m k = None)
           \<and> (\<forall>k v. distinct (map fst entries) \<and> (k, v) \<in> set entries \<longrightarrow> m k = Some v)"
proof -
  have "pg_stat_activity config w = activity_dict (splitlines out) Map.empty"
    using assms(1,2) by (simp add: pg_stat_activity_def)
  also have "\<dots> = Inr (map_of (rev entries))"
    using activity_dict_entries [OF assms(3), of Map.empty] by simp
  finally have r: "pg_stat_activity config w = Inr (map_of (rev entries))" .
  have d: "dom (map_of (rev entries)) = fst ` set entries"
    by (simp add: dom_map_of_conv_image_fst)
  have a: "k \<notin> fst ` set entries \<Longrightarrow> map_of (rev entries) k = None" for k
    using d by (metis domIff)
  have s: "distinct (map fst entries) \<and> (k, v) \<in> set entries \<Longrightarrow> map_of (rev entries) k = Some v"
    for k v
    by (simp add: distinct_rev rev_map [symmetric])
  from r d a s show ?thesis by blast
qed


theorem pg_stat_activity_mapping_witness:
  "(case pg_stat_activity config0
           (world0 (Exited 0 ''19|idle\<newline>2|active\<newline>1|idle in transaction\<newline>'' [])) of
      Inl e \<Rightarrow> False
    | Inr m \<Rightarrow> m (ascii ''idle'') = Some 19 \<and> m (ascii ''active'') = Some 2
               \<and> m (ascii ''idle in transaction'') = Some 1
               \<and> m (ascii ''disabled'') = None)"
proof -
  let ?out = "''19|idle\<newline>2|active\<newline>1|idle in transaction\<newline>''"
  let ?w = "world0 (Exited 0 ?out [])"
  let ?entries = "[(ascii ''idle'', 19::int), (ascii ''active'', 2), (ascii ''idle in transaction'', 1)]"
  have r: "run ?w c env = Exited 0 ?out []" for c env
    by (simp add: world0_def)
  obtain cmd where c: "pg_stat_activity_cmd config0 ?w = Inr cmd"
    by (simp add: pg_stat_activity_cmd_def getitem_def make_env_def config0_def world0_def)
  have p: "map parse_line (splitlines ?out) = map Some ?entries"
    by code_simp
  have d: "distinct (map fst ?entries)" by code_simp
  have n: "ascii ''disabled'' \<notin> fst ` set ?entries" by code_simp
  from pg_stat_activity_mapping [OF c r p] obtain m where
    m: "pg_stat_activity config0 ?w = Inr m"
    and absent: "\<forall>k. k \<notin> fst ` set ?entries \<longrightarrow> m k = None"
    and present: "\<forall>k v. distinct (map fst ?entries) \<and> (k, v) \<in> set ?entries \<longrightarrow> m k = Some v"
    by blast
  have "m (ascii ''idle'') = Some 19" "m (ascii ''active'') = Some 2"
    "m (ascii ''idle in transaction'') = Some 1"
    using present d by simp_all
  moreover have "m (ascii ''disabled'') = None"
    using absent n by blast
  ultimately show ?thesis by (simp add: m)
qed

subsection \<open>\<open>emptydb\<close>: one transaction, one connection\<close>

lemma open_pg_connection_Inr:
  "open_pg_connection drv config db = Inr conn \<Longrightarrow>
   conn = \<lparr>committed = db, pending = db, closed = False\<rparr>"
  by (auto simp: open_pg_connection_def connect_def Let_def
           split: if_splits sum.splits option.splits error.splits)

lemma drop_each_committed:
  "drop_each drv kind rs conn = (c, r) \<Longrightarrow> committed c = committed conn \<and> closed c = closed conn"
proof (induction rs arbitrary: conn)
  case Nil
  then show ?case by simp
next
  case (Cons x xs)
  then show ?case
    by (fastforce simp: execute_def split: sum.splits prod.splits)
qed

lemma drop_each_Inr:
  "drops drv kind rs (pending conn) = Inr db \<Longrightarrow>
   drop_each drv kind rs conn = (conn\<lparr>pending := db\<rparr>, Inr ())"
proof (induction rs arbitrary: conn)
  case Nil
  then show ?case by simp
next
  case (Cons x xs)
  from Cons.prems obtain db1 rows where
    e: "executes drv (DropCascade kind x) (pending conn) = Inr (db1, rows)"
    and d: "drops drv kind xs db1 = Inr db"
    by (auto split: sum.splits)
  from Cons.IH [of "conn\<lparr>pending := db1\<rparr>"] d e show ?case
    by (simp add: execute_def)
qed

lemma drop_each_Inl:
  "drops drv kind rs (pending conn) = Inl e \<Longrightarrow>
   \<exists>c. drop_each drv kind rs conn = (c, Inl e)
       \<and> committed c = committed conn \<and> closed c = closed conn"
proof (induction rs arbitrary: conn)
  case Nil
  then show ?case by simp
next
  case (Cons x xs)
  show ?case
  proof (cases "executes drv (DropCascade kind x) (pending conn)")
    case (Inl e')
    with Cons.prems show ?thesis by (simp add: execute_def)
  next
    case (Inr p)
    obtain db1 rows where p: "p = (db1, rows)" by (cases p)
    with Inr Cons.prems have "drops drv kind xs (pending (conn\<lparr>pending := db1\<rparr>)) = Inl e"
      by simp
    from Cons.IH [OF this] Inr p show ?thesis
      by (simp add: execute_def)
  qed
qed

text \<open>One phase on a connection: the selection, then the loop.\<close>

lemma phase_Inr:
  assumes "phase drv kind (pending conn) = Inr db"
  shows "\<exists>c1 rows. execute drv (SelectVisible kind) conn = Inr (c1, rows)
           \<and> drop_each drv kind rows c1 = (conn\<lparr>pending := db\<rparr>, Inr ())"
proof -
  from assms obtain db1 rows where
    e: "executes drv (SelectVisible kind) (pending conn) = Inr (db1, rows)"
    and d: "drops drv kind rows db1 = Inr db"
    by (auto simp: phase_def split: sum.splits)
  have "execute drv (SelectVisible kind) conn = Inr (conn\<lparr>pending := db1\<rparr>, rows)"
    using e by (simp add: execute_def)
  moreover have "drop_each drv kind rows (conn\<lparr>pending := db1\<rparr>) = (conn\<lparr>pending := db\<rparr>, Inr ())"
    using drop_each_Inr [of drv kind rows "conn\<lparr>pending := db1\<rparr>" db] d by simp
  ultimately show ?thesis by blast
qed

lemma phase_Inl:
  assumes "phase drv kind (pending conn) = Inl e"
  shows "execute drv (SelectVisible kind) conn = Inl e
         \<or> (\<exists>c1 rows c2. execute drv (SelectVisible kind) conn = Inr (c1, rows)
               \<and> drop_each drv kind rows c1 = (c2, Inl e)
               \<and> committed c2 = committed conn \<and> closed c2 = closed conn)"
proof (cases "executes drv (SelectVisible kind) (pending conn)")
  case (Inl e')
  with assms show ?thesis by (simp add: phase_def execute_def)
next
  case (Inr p)
  obtain db1 rows where p: "p = (db1, rows)" by (cases p)
  with Inr assms have d: "drops drv kind rows (pending (conn\<lparr>pending := db1\<rparr>)) = Inl e"
    by (simp add: phase_def)
  from drop_each_Inl [OF d] obtain c2 where
    "drop_each drv kind rows (conn\<lparr>pending := db1\<rparr>) = (c2, Inl e)"
    "committed c2 = committed conn" "closed c2 = closed conn"
    by auto
  moreover have "execute drv (SelectVisible kind) conn = Inr (conn\<lparr>pending := db1\<rparr>, rows)"
    using Inr p by (simp add: execute_def)
  ultimately show ?thesis by blast
qed

lemma emptydb_try_Inr:
  assumes "both_phases drv (pending conn) = Inr db"
  shows "emptydb_try drv conn = (conn\<lparr>pending := db, committed := db\<rparr>, Inr ())"
proof -
  from assms obtain db1 where
    p1: "phase drv Table (pending conn) = Inr db1"
    and p2: "phase drv Sequence db1 = Inr db"
    and cf: "commit_fails drv db = None"
    by (auto simp: both_phases_def split: sum.splits option.splits)
  from phase_Inr [OF p1] obtain c1 tables where
    s1: "execute drv (SelectVisible Table) conn = Inr (c1, tables)"
    and d1: "drop_each drv Table tables c1 = (conn\<lparr>pending := db1\<rparr>, Inr ())"
    by blast
  have "phase drv Sequence (pending (conn\<lparr>pending := db1\<rparr>)) = Inr db"
    using p2 by simp
  from phase_Inr [OF this] obtain c3 sequences where
    s2: "execute drv (SelectVisible Sequence) (conn\<lparr>pending := db1\<rparr>) = Inr (c3, sequences)"
    and d2: "drop_each drv Sequence sequences c3 = (conn\<lparr>pending := db\<rparr>, Inr ())"
    by auto
  have c: "commit drv (conn\<lparr>pending := db\<rparr>) = Inr (conn\<lparr>pending := db, committed := db\<rparr>)"
    using cf by (simp add: commit_def)
  show ?thesis
    by (simp add: emptydb_try_def s1 d1 s2 d2 c)
qed

lemma emptydb_try_Inl:
  assumes "both_phases drv (pending conn) = Inl e"
  shows "\<exists>c. emptydb_try drv conn = (c, Inl e)
           \<and> committed c = committed conn \<and> closed c = closed conn"
proof (cases "phase drv Table (pending conn)")
  case (Inl e1)
  with assms have e1: "e1 = e" by (simp add: both_phases_def)
  from phase_Inl [OF Inl] show ?thesis
    unfolding e1 by (auto simp: emptydb_try_def)
next
  case (Inr db1)
  from phase_Inr [OF Inr] obtain c1 tables where
    s1: "execute drv (SelectVisible Table) conn = Inr (c1, tables)"
    and d1: "drop_each drv Table tables c1 = (conn\<lparr>pending := db1\<rparr>, Inr ())"
    by blast
  let ?c2 = "conn\<lparr>pending := db1\<rparr>"
  show ?thesis
  proof (cases "phase drv Sequence db1")
    case (Inl e2)
    with Inr assms have e2: "e2 = e" by (simp add: both_phases_def)
    have "phase drv Sequence (pending ?c2) = Inl e" using Inl e2 by simp
    from phase_Inl [OF this] show ?thesis
      by (auto simp: emptydb_try_def s1 d1)
  next
    case p2: (Inr db2)
    have "phase drv Sequence (pending ?c2) = Inr db2" using p2 by simp
    from phase_Inr [OF this] obtain c3 sequences where
      s2: "execute drv (SelectVisible Sequence) ?c2 = Inr (c3, sequences)"
      and d2: "drop_each drv Sequence sequences c3 = (conn\<lparr>pending := db2\<rparr>, Inr ())"
      by auto
    from assms Inr p2 have cf: "commit_fails drv db2 = Some e"
      by (simp add: both_phases_def split: option.splits)
    then have "commit drv (conn\<lparr>pending := db2\<rparr>) = Inl e"
      by (simp add: commit_def)
    then show ?thesis
      by (simp add: emptydb_try_def s1 d1 s2 d2)
  qed
qed

text \<open>
  Claim C2. On a connection that could be opened, \<open>emptydb\<close> runs the phase of the
  tables and then the phase of the sequences in the transaction of that connection
  and commits once, after both. When both phases and the commit succeed, the committed
  state is the one the two phases produced. When a phase fails with an error of the
  database, \<open>emptydb\<close> fails with an \<open>M2EEException\<close> that carries this error, and the
  committed state is the one before the call. Whenever \<open>emptydb\<close> fails, nothing was
  committed.
\<close>

theorem emptydb_single_transaction:
  assumes "open_pg_connection drv config db = Inr conn"
  shows "(phase drv Table db = Inr db1 \<and> phase drv Sequence db1 = Inr db2
            \<and> commit_fails drv db2 = None \<longrightarrow>
          emptydb drv config db =
            (Some \<lparr>committed = db2, pending = db2, closed = True\<rparr>, Inr ()))
         \<and> (phase drv Table db = Inl (Psycopg2Error pe)
            \<or> phase drv Table db = Inr db1 \<and> phase drv Sequence db1 = Inl (Psycopg2Error pe) \<longrightarrow>
          emptydb drv config db =
            (Some \<lparr>committed = db, pending = db, closed = True\<rparr>,
             Inl (M2EEException (''Emptying database failed: '' @ pe) (Some (Psycopg2Error pe)))))
         \<and> (emptydb drv config db = (Some c, Inl e) \<longrightarrow> committed c = db)"
proof -
  note conn = open_pg_connection_Inr [OF assms]
  have pc: "pending conn = db" and cc: "committed conn = db" and nc: "closed conn = False"
    by (simp_all add: conn)
  have ok: "emptydb drv config db = (Some \<lparr>committed = db2, pending = db2, closed = True\<rparr>, Inr ())"
    if "phase drv Table db = Inr db1 \<and> phase drv Sequence db1 = Inr db2
          \<and> commit_fails drv db2 = None"
  proof -
    from that have "both_phases drv (pending conn) = Inr db2"
      by (simp add: both_phases_def pc)
    from emptydb_try_Inr [OF this] show ?thesis
      by (simp add: emptydb_def assms close_def conn)
  qed
  have failed: "\<exists>c. emptydb drv config db =
         (Some c, Inl (case x of
                         Psycopg2Error pe \<Rightarrow>
                           M2EEException (''Emptying database failed: '' @ pe)
                             (Some (Psycopg2Error pe))
                       | _ \<Rightarrow> x))
         \<and> c = \<lparr>committed = db, pending = db, closed = True\<rparr>"
    if "both_phases drv db = Inl x" for x
  proof -
    from that have "both_phases drv (pending conn) = Inl x" by (simp add: pc)
    from emptydb_try_Inl [OF this] obtain c0 where
      t: "emptydb_try drv conn = (c0, Inl x)" and c0: "committed c0 = db"
      by (auto simp: cc)
    have "close c0 = \<lparr>committed = db, pending = db, closed = True\<rparr>"
      using c0 by (cases c0) (simp add: close_def)
    then show ?thesis
      by (cases x) (simp_all add: emptydb_def assms t)
  qed
  have db_error: "emptydb drv config db =
            (Some \<lparr>committed = db, pending = db, closed = True\<rparr>,
             Inl (M2EEException (''Emptying database failed: '' @ pe) (Some (Psycopg2Error pe))))"
    if "phase drv Table db = Inl (Psycopg2Error pe)
        \<or> phase drv Table db = Inr db1 \<and> phase drv Sequence db1 = Inl (Psycopg2Error pe)"
  proof -
    from that have "both_phases drv db = Inl (Psycopg2Error pe)"
      by (auto simp: both_phases_def)
    from failed [OF this] show ?thesis by simp
  qed
  have uncommitted: "committed c = db" if r: "emptydb drv config db = (Some c, Inl e)"
  proof (cases "both_phases drv db")
    case (Inl x)
    from failed [OF Inl] r show ?thesis by auto
  next
    case (Inr db')
    then have "both_phases drv (pending conn) = Inr db'" by (simp add: pc)
    from emptydb_try_Inr [OF this] r show ?thesis
      by (simp add: emptydb_def assms)
  qed
  from ok db_error uncommitted show ?thesis by blast
qed

theorem emptydb_single_transaction_witness:
  "emptydb driver0 config0 catalog_ok = (Some \<lparr>committed = [], pending = [], closed = True\<rparr>, Inr ())
   \<and> emptydb driver0 config0 catalog_locked =
       (Some \<lparr>committed = catalog_locked, pending = catalog_locked, closed = True\<rparr>,
        Inl (M2EEException ''Emptying database failed: relation is locked''
               (Some (Psycopg2Error ''relation is locked''))))"
proof -
  have o: "open_pg_connection driver0 config0 db = Inr \<lparr>committed = db, pending = db, closed = False\<rparr>"
    for db
    by (simp add: open_pg_connection_def connect_def getitem_def driver0_def config0_def)
  have a: "phase driver0 Table catalog_ok = Inr [(Sequence, (''public'', ''orders_id_seq''))]
           \<and> phase driver0 Sequence [(Sequence, (''public'', ''orders_id_seq''))] = Inr []
           \<and> commit_fails driver0 [] = None"
    by code_simp
  have b: "phase driver0 Table catalog_locked = Inl (Psycopg2Error ''relation is locked'')
           \<or> phase driver0 Table catalog_locked = Inr [(Sequence, (''public'', ''locked''))]
             \<and> phase driver0 Sequence [(Sequence, (''public'', ''locked''))] =
                 Inl (Psycopg2Error ''relation is locked'')"
    by code_simp
  from emptydb_single_transaction [OF o, THEN conjunct1, THEN mp, OF a]
       emptydb_single_transaction [OF o, THEN conjunct2, THEN conjunct1, THEN mp, OF b]
  show ?thesis by simp
qed

text \<open>
  Claim C8. A connection that \<open>emptydb\<close> opened is open at first and closed when
  \<open>emptydb\<close> is left, whether it returns or fails. When no connection could be
  opened, \<open>emptydb\<close> fails with the error of the opening and there is none to close.
\<close>

theorem emptydb_closes_connection:
  "(open_pg_connection drv config db = Inr conn \<longrightarrow>
      \<not> closed conn \<and> (\<exists>c r. emptydb drv config db = (Some c, r) \<and> closed c))
   \<and> (emptydb drv config db = (Some c', r') \<longrightarrow>
      closed c' \<and> (\<exists>conn'. open_pg_connection drv config db = Inr conn'))
   \<and> (open_pg_connection drv config db = Inl e \<longrightarrow> emptydb drv config db = (None, Inl e))"
proof (intro conjI impI)
  assume o: "open_pg_connection drv config db = Inr conn"
  show "\<not> closed conn" using open_pg_connection_Inr [OF o] by simp
  obtain c0 r0 where t: "emptydb_try drv conn = (c0, r0)" by (cases "emptydb_try drv conn")
  show "\<exists>c r. emptydb drv config db = (Some c, r) \<and> closed c"
    by (cases r0; cases "projl r0")
       (simp_all add: emptydb_def o t close_def)
next
  assume r: "emptydb drv config db = (Some c', r')"
  then obtain conn' where o: "open_pg_connection drv config db = Inr conn'"
    by (cases "open_pg_connection drv config db") (simp_all add: emptydb_def)
  then show "\<exists>conn'. open_pg_connection drv config db = Inr conn'" by blast
  obtain c0 r0 where t: "emptydb_try drv conn' = (c0, r0)" by (cases "emptydb_try drv conn'")
  from r have "c' = close c0"
    by (cases r0; cases "projl r0") (simp_all add: emptydb_def o t)
  then show "closed c'" by (simp add: close_def)
next
  assume "open_pg_connection drv config db = Inl e"
  then show "emptydb drv config db = (None, Inl e)" by (simp add: emptydb_def)
qed

theorem emptydb_closes_connection_witness:
  "(case fst (emptydb driver0 config0 catalog_locked) of None \<Rightarrow> False | Some c \<Rightarrow> closed c)
   \<and> (case fst (emptydb driver0 config0 catalog_ok) of None \<Rightarrow> False | Some c \<Rightarrow> closed c)"
proof -
  have o: "open_pg_connection driver0 config0 db = Inr \<lparr>committed = db, pending = db, closed = False\<rparr>"
    for db
    by (simp add: open_pg_connection_def connect_def getitem_def driver0_def config0_def)
  from emptydb_closes_connection [where drv = driver0 and config = config0 and db = catalog_locked,
         THEN conjunct1, THEN mp, OF o]
       emptydb_closes_connection [where drv = driver0 and config = config0 and db = catalog_ok,
         THEN conjunct1, THEN mp, OF o]
  show ?thesis by auto
qed


end
